
theory Spec2Isabelle
  imports Complex_Main "HOL-Library.Signed_Division"
begin

unbundle bit_operations_syntax

section \<open>A lookahead microphone AGC (agc.c): data model\<close>

text \<open>
  The C \<^verbatim>\<open>float\<close> is modelled by \<^typ>\<open>real\<close>: arithmetic is exact, and rounding,
  infinities and NaN are outside the model (a C division by zero gives an infinity or a
  NaN, the HOL one gives 0; no theorem below depends on the value of such a quotient). The C \<^verbatim>\<open>int\<close> is modelled by
  \<^typ>\<open>int\<close>; \<^verbatim>\<open>/\<close> and \<^verbatim>\<open>%\<close> on it truncate towards zero (\<open>sdiv\<close>, \<open>smod\<close>). Undefined
  behaviour that the construction and the processing functions can reach (a remainder by
  zero, an index outside the delay line or outside a four-element array, the overflow of a
  cursor or of a reset point, a dangling pointer, the conversion of a value that is not
  finite to \<^verbatim>\<open>int\<close>) is the result \<open>None\<close>. The integers that a parameter update
  computes from its value string, and the hold timer, are not bounded.

  Pointers to \<^verbatim>\<open>struct agc\<close> are addresses into a heap; the delay line of a channel is
  owned by that channel alone and is a list inside the record. The four-element arrays
  are lists of length four.
\<close>

type_synonym addr = nat

text \<open>coefficients of agc_RC_Filter\<close>

record agc_RC_Coe =
  a :: real
  b :: real
  c :: real
  f :: real
  q :: real

text \<open>variables of agc_RC_Filter\<close>

record agc_RC_Var =
  last_in :: real
  lp :: real
  bp :: real
  hp :: real

record agc_RC_Filter =
  coe :: agc_RC_Coe
  var :: agc_RC_Var

record agc =
  host :: addr
  partner :: addr
  input :: real
  ratio :: real
  limit :: real
  nr_gain :: real
  nr_onthres :: real
  nr_offthres :: real
  gain_interval_amount :: real
  nr_state :: int
  buffer :: "real list"
  buffer_len :: int
  sRate :: int
  in_pos :: int
  out_pos :: int
  gain :: real
  DC :: real
  ds_bias :: real
  ds_gain :: real
  ds_state :: int
  RR_reset_point :: "int list"
  RR_signal :: "real list"
  RR_DS_high :: "real list"
  RR_DS_low :: "real list"
  use_ducker :: int
  df :: real
  ducker_attack :: real
  ducker_release :: real
  ducker_hold_timer :: int
  ducker_hold_timer_resetval :: int
  meter_red :: real
  meter_yellow :: real
  meter_green :: real
  RC_HPF_initial :: "agc_RC_Filter list"
  hpstages :: int
  hf_detail :: real
  RC_HPF_detail :: agc_RC_Filter
  lf_detail :: real
  RC_LPF_detail :: agc_RC_Filter
  use_phaserotator :: int
  RC_PHR :: "agc_RC_Filter list"
  RC_F_DS :: agc_RC_Filter

type_synonym heap = "addr \<Rightarrow> agc option"

definition INT_MAX :: int where
  "INT_MAX = 2147483647"

text \<open>The conversion \<^verbatim>\<open>(int) x\<close> of a finite float: truncation towards zero.\<close>

definition c_trunc :: "real \<Rightarrow> int" where
  "c_trunc x = (if 0 \<le> x then \<lfloor>x\<rfloor> else \<lceil>x\<rceil>)"

section \<open>The filters\<close>

definition agc_12db_hpfilter :: "agc_RC_Coe \<Rightarrow> agc_RC_Var \<Rightarrow> real \<Rightarrow> agc_RC_Var \<times> real" where
  "agc_12db_hpfilter co v x =
     (let x1 = x + q co * bp v;
          v1 = v\<lparr>hp := c co * (hp v + x1 - last_in v)\<rparr>;
          v2 = v1\<lparr>bp := bp v1 * a co + hp v1 * b co\<rparr>;
          v3 = v2\<lparr>last_in := x1\<rparr>
      in (v3, hp v3))"

definition agc_6db_hpfilter :: "real \<Rightarrow> agc_RC_Coe \<Rightarrow> agc_RC_Var \<Rightarrow> real \<Rightarrow> agc_RC_Var \<times> real" where
  "agc_6db_hpfilter detail co v x =
     (let v1 = v\<lparr>hp := c co * (hp v + x - last_in v)\<rparr>;
          v2 = v1\<lparr>last_in := x\<rparr>
      in (v2, x + hp v2 * detail))"

definition agc_6db_lpfilter :: "real \<Rightarrow> agc_RC_Coe \<Rightarrow> agc_RC_Var \<Rightarrow> real \<Rightarrow> agc_RC_Var \<times> real" where
  "agc_6db_lpfilter detail co v x =
     (let v1 = v\<lparr>lp := lp v * a co + x * b co\<rparr>
      in (v1, x + lp v1 * detail))"

definition agc_phaserotate :: "agc_RC_Filter \<Rightarrow> real \<Rightarrow> agc_RC_Filter \<times> real" where
  "agc_phaserotate fl x =
     (let co = coe fl; v = var fl;
          v1 = v\<lparr>hp := c co * (hp v + x - last_in v)\<rparr>;
          v2 = v1\<lparr>lp := lp v1 * a co + x * b co\<rparr>;
          v3 = v2\<lparr>last_in := x\<rparr>
      in (fl\<lparr>var := v3\<rparr>, lp v3 - hp v3))"

section \<open>Stage 1: filtering and storing a sample\<close>

text \<open>
  The loop \<^verbatim>\<open>for (i = 0; i < q; ++i)\<close> over the subsonic bank: \<open>n\<close> iterations are left,
  \<open>i\<close> is the index. The coefficients are read from the host's bank \<open>hs\<close>, the variables
  are those of the channel's own bank \<open>ss\<close>. An index beyond the four filters of the
  array is undefined behaviour.
\<close>

fun hpf_bank :: "nat \<Rightarrow> nat \<Rightarrow> agc_RC_Filter list \<Rightarrow> agc_RC_Filter list \<Rightarrow> real
    \<Rightarrow> (agc_RC_Filter list \<times> real) option" where
  "hpf_bank 0 i hs ss x = Some (ss, x)"
| "hpf_bank (Suc n) i hs ss x =
     (if 4 \<le> i then None
      else (let (v, y) = agc_12db_hpfilter (coe (hs ! i)) (var (ss ! i)) x
            in hpf_bank n (Suc i) hs (ss[i := (ss ! i)\<lparr>var := v\<rparr>]) y))"

text \<open>The loop \<^verbatim>\<open>for (i = 0; i < 4; ++i)\<close> over the phase rotator.\<close>

fun phr_loop :: "nat \<Rightarrow> nat \<Rightarrow> agc_RC_Filter list \<Rightarrow> real \<Rightarrow> agc_RC_Filter list \<times> real" where
  "phr_loop 0 i fs x = (fs, x)"
| "phr_loop (Suc n) i fs x =
     (let (fl, y) = agc_phaserotate (fs ! i) x
      in phr_loop n (Suc i) (fs[i := fl]) y)"

text \<open>
  \<open>stage1_body hs s x\<close> is the body of \<^verbatim>\<open>agc_process_stage1\<close> on the channel \<open>s\<close> whose
  host is \<open>hs\<close> (the same record when the channel is its own host: the body reads only
  fields of the host that it does not write).
\<close>

definition stage1_body :: "agc \<Rightarrow> agc \<Rightarrow> real \<Rightarrow> agc option" where
  "stage1_body hs s x =
     (case hpf_bank (nat (hpstages hs)) 0 (RC_HPF_initial hs) (RC_HPF_initial s) x of
        None \<Rightarrow> None
      | Some (bank, x1) \<Rightarrow>
         (let (v_hf, x2) = agc_6db_hpfilter (hf_detail hs) (coe (RC_HPF_detail hs))
                             (var (RC_HPF_detail s)) x1;
              (v_lf, x3) = agc_6db_lpfilter (lf_detail hs) (coe (RC_LPF_detail hs))
                             (var (RC_LPF_detail s)) x2;
              (phr, x4) = (if use_phaserotator hs \<noteq> 0 then phr_loop 4 0 (RC_PHR s) x3
                           else (RC_PHR s, x3))
          in if buffer_len s = 0 then None
             else (let k = in_pos s smod buffer_len s
                   in if k < 0 \<or> int (length (buffer s)) \<le> k then None
                      else if INT_MAX \<le> in_pos s \<or> INT_MAX \<le> out_pos s then None
                      else Some (s\<lparr>RC_HPF_initial := bank,
                                   RC_HPF_detail := (RC_HPF_detail s)\<lparr>var := v_hf\<rparr>,
                                   RC_LPF_detail := (RC_LPF_detail s)\<lparr>var := v_lf\<rparr>,
                                   RC_PHR := phr,
                                   input := x4,
                                   buffer := (buffer s)[nat k := x4],
                                   in_pos := in_pos s + 1,
                                   out_pos := out_pos s + 1\<rparr>))))"

definition agc_process_stage1 :: "heap \<Rightarrow> addr \<Rightarrow> real \<Rightarrow> heap option" where
  "agc_process_stage1 h p x =
     (case h p of
        None \<Rightarrow> None
      | Some s \<Rightarrow>
         (case h (host s) of
            None \<Rightarrow> None
          | Some hs \<Rightarrow> map_option (\<lambda>s'. h(p \<mapsto> s')) (stage1_body hs s x)))"

section \<open>The round-robin envelope follower\<close>

fun rr_loop :: "nat \<Rightarrow> nat \<Rightarrow> real list \<Rightarrow> int list \<Rightarrow> int \<Rightarrow> real \<Rightarrow> real
    \<Rightarrow> real list \<times> real" where
  "rr_loop 0 i storage reset_point phase x highest = (storage, highest)"
| "rr_loop (Suc n) i storage reset_point phase x highest =
     (let st1 = (if reset_point ! i = phase then storage[i := 0] else storage);
          st2 = (if x > st1 ! i then st1[i := x] else st1);
          highest' = (if st2 ! i > highest then st2 ! i else highest)
      in rr_loop n (Suc i) st2 reset_point phase x highest')"

definition agc_quad_rr :: "real list \<Rightarrow> int list \<Rightarrow> int \<Rightarrow> real \<Rightarrow> real list \<times> real" where
  "agc_quad_rr storage reset_point phase x = rr_loop 4 0 storage reset_point phase \<bar>x\<bar> 0"

section \<open>Stage 2: the control update\<close>

text \<open>The sidechain signal: combined with the partner's when the partner defers to \<open>p\<close>.\<close>

definition sidechain_input :: "addr \<Rightarrow> agc \<Rightarrow> agc \<Rightarrow> real" where
  "sidechain_input p ps s =
     (if host ps = p then (input s + input ps) * 0.5 else input s)"

definition stage2_phase :: "agc \<Rightarrow> int" where
  "stage2_phase s = in_pos s smod (2 * buffer_len s)"

text \<open>De-Esser sidechain-filter - does high and low pass filtering\<close>

definition deess_sidechain :: "agc_RC_Filter \<Rightarrow> real \<Rightarrow> agc_RC_Filter" where
  "deess_sidechain fl x =
     (let co = coe fl; v = var fl;
          ds_input = x + q co * bp v;
          v1 = v\<lparr>lp := lp v * a co + ds_input * b co\<rparr>;
          v2 = v1\<lparr>hp := c co * (hp v1 + x - last_in v1)\<rparr>;
          v3 = v2\<lparr>bp := bp v2 * a co + hp v2 * b co\<rparr>;
          v4 = v3\<lparr>last_in := ds_input\<rparr>
      in fl\<lparr>var := v4\<rparr>)"

text \<open>raw-amplification-factor limited to maximum allowed ratio\<close>

definition raw_factor :: "agc \<Rightarrow> real \<Rightarrow> real" where
  "raw_factor s amp =
     (let factor = limit s / (amp + 0.0001)
      in if factor > ratio s then ratio s else factor)"

text \<open>if below noise-floor, attenuate signal\<close>

definition noise_gate :: "agc \<Rightarrow> real \<Rightarrow> int" where
  "noise_gate s amp =
     (let st1 = (if amp < nr_onthres s then 1 else nr_state s);
          st2 = (if amp > nr_offthres s then 0 else st1)
      in st2)"

text \<open>if de-esser says there are only high frequencies, attenuate signal\<close>

definition deesser :: "agc \<Rightarrow> real \<Rightarrow> real \<Rightarrow> int" where
  "deesser s ds_amph ds_ampl =
     (let st1 = (if ds_amph * ds_bias s > ds_ampl * 1.3333333 then 1 else ds_state s);
          st2 = (if ds_amph * ds_bias s < ds_ampl * 0.75 then 0 else st1)
      in st2)"

text \<open>modulate gain-factor\<close>

definition modulate_gain :: "real \<Rightarrow> real \<Rightarrow> real \<Rightarrow> real" where
  "modulate_gain g factor amount =
     (let g1 = (if g < factor then g + amount else g);
          g2 = (if g1 > factor then g1 - amount else g1)
      in g2)"

text \<open>ducking is optional and must not work when the mic is closed\<close>

definition ducker :: "agc \<Rightarrow> int \<Rightarrow> real \<Rightarrow> real \<Rightarrow> agc" where
  "ducker s mic_is_mute factor amp =
     (if mic_is_mute \<noteq> 0 \<or> use_ducker s = 0
      then (if df s < 1 then s\<lparr>df := df s + ducker_release s\<rparr> else s\<lparr>df := 1\<rparr>)
      else (let duck_amp0 = 1 - factor * amp;
                duck_amp = (if duck_amp0 < 1 - limit s then 1 - limit s else duck_amp0);
                s1 = (if df s < duck_amp
                      then (if ducker_hold_timer s = 0
                            then s\<lparr>df := df s + ducker_release s\<rparr>
                            else s\<lparr>ducker_hold_timer := ducker_hold_timer s - 1\<rparr>)
                      else s);
                s2 = (if df s1 > duck_amp
                      then s1\<lparr>df := df s1 - ducker_attack s1,
                              ducker_hold_timer := ducker_hold_timer_resetval s1\<rparr>
                      else s1)
            in s2))"

text \<open>maintain a peak hold gain figure for the GUI compression meter\<close>

definition meters :: "agc \<Rightarrow> real \<Rightarrow> agc" where
  "meters s orig_factor =
     (if out_pos s AND 7 = 0
      then s\<lparr>meter_red := orig_factor / ratio s,
              meter_yellow := (if ds_state s \<noteq> 0 then ds_gain s else 1),
              meter_green := (if nr_state s \<noteq> 0 then nr_gain s else 1)\<rparr>
      else s)"

text \<open>
  \<open>stage2_body p ps s m\<close> is the branch \<^verbatim>\<open>s == s->host\<close> of \<^verbatim>\<open>agc_process_stage2\<close> on
  the channel \<open>s\<close> at address \<open>p\<close> whose partner is \<open>ps\<close>. The remainder by
  \<^verbatim>\<open>2 * s->buffer_len\<close> is undefined for an empty delay line.
\<close>

definition stage2_body :: "addr \<Rightarrow> agc \<Rightarrow> agc \<Rightarrow> int \<Rightarrow> agc option" where
  "stage2_body p ps s mic_is_mute =
     (if 2 * buffer_len s = 0 then None
      else (let x = sidechain_input p ps s;
                phase = stage2_phase s;
                fds = deess_sidechain (RC_F_DS s) x;
                (high, ds_amph) = agc_quad_rr (RR_DS_high s) (RR_reset_point s) phase (hp (var fds));
                (low, ds_ampl) = agc_quad_rr (RR_DS_low s) (RR_reset_point s) phase (lp (var fds));
                (sig, amp) = agc_quad_rr (RR_signal s) (RR_reset_point s) phase x;
                factor0 = raw_factor s amp;
                orig_factor = factor0;
                nr = noise_gate s amp;
                factor1 = (if nr = 1 then factor0 * nr_gain s else factor0);
                ds = deesser s ds_amph ds_ampl;
                factor = (if ds = 1 then factor1 * ds_gain s else factor1);
                s1 = s\<lparr>RC_F_DS := fds, RR_DS_high := high, RR_DS_low := low, RR_signal := sig,
                       nr_state := nr, ds_state := ds,
                       gain := modulate_gain (gain s) factor (gain_interval_amount s)\<rparr>;
                s2 = ducker s1 mic_is_mute factor amp
            in Some (meters s2 orig_factor)))"

definition agc_process_stage2 :: "heap \<Rightarrow> addr \<Rightarrow> int \<Rightarrow> heap option" where
  "agc_process_stage2 h p mic_is_mute =
     (case h p of
        None \<Rightarrow> None
      | Some s \<Rightarrow>
         if host s = p
         then (case h (partner s) of
                 None \<Rightarrow> None
               | Some ps \<Rightarrow> map_option (\<lambda>s'. h(p \<mapsto> s')) (stage2_body p ps s mic_is_mute))
         else Some h)"

section \<open>Stage 3: the delayed sample under the host's gain\<close>

definition delayed_sample :: "agc \<Rightarrow> real option" where
  "delayed_sample s =
     (if buffer_len s = 0 then None
      else (let k = out_pos s smod buffer_len s
            in if k < 0 \<or> int (length (buffer s)) \<le> k then None
               else Some (buffer s ! nat k)))"

definition agc_process_stage3 :: "heap \<Rightarrow> addr \<Rightarrow> real option" where
  "agc_process_stage3 h p =
     (case h p of
        None \<Rightarrow> None
      | Some s \<Rightarrow>
         (case h (host s) of
            None \<Rightarrow> None
          | Some hs \<Rightarrow> map_option (\<lambda>y. y * gain hs) (delayed_sample s)))"

section \<open>Telemetry\<close>

text \<open>
  \<^verbatim>\<open>level2db\<close>: the base-10 logarithm of a level that is not positive is not finite, and
  its conversion to \<^verbatim>\<open>int\<close> is undefined.
\<close>

definition level2db :: "real \<Rightarrow> int option" where
  "level2db level = (if level \<le> 0 then None else Some (c_trunc (log 10 level * (- 20))))"

definition agc_get_meter_levels :: "heap \<Rightarrow> addr \<Rightarrow> (int \<times> int \<times> int) option" where
  "agc_get_meter_levels h p =
     (case h p of
        None \<Rightarrow> None
      | Some s \<Rightarrow>
         (case (level2db (meter_red s), level2db (meter_yellow s), level2db (meter_green s)) of
            (Some red, Some yellow, Some green) \<Rightarrow> Some (red, yellow, green)
          | _ \<Rightarrow> None))"

definition agc_get_ducking_factor :: "heap \<Rightarrow> addr \<Rightarrow> real option" where
  "agc_get_ducking_factor h p = map_option df (h p)"

definition agc_reset_stats :: "heap \<Rightarrow> addr \<Rightarrow> heap option" where
  "agc_reset_stats h p =
     map_option (\<lambda>s. h(p \<mapsto> s\<lparr>meter_green := 1, meter_yellow := 1, meter_red := 1, df := 1\<rparr>)) (h p)"

section \<open>Parameter setup\<close>

definition setup_ratio :: "agc \<Rightarrow> real \<Rightarrow> agc" where
  "setup_ratio s ratio_db =
     (let s1 = s\<lparr>ratio := 10 powr (ratio_db / 20)\<rparr>
      in s1\<lparr>gain_interval_amount := ratio s1 / real_of_int (buffer_len s1)\<rparr>)"

text \<open>
  The coefficients of one RC filter for the cutoff \<open>fCutoff\<close> and the resonance \<open>qv\<close> at
  the sample rate \<open>sr\<close>: the five assignments that each setup function of the source makes.
\<close>

definition rc_coefficients :: "int \<Rightarrow> real \<Rightarrow> real \<Rightarrow> agc_RC_Coe \<Rightarrow> agc_RC_Coe" where
  "rc_coefficients sr fCutoff qv co =
     (let c1 = co\<lparr>f := fCutoff\<rparr>;
          c2 = c1\<lparr>q := qv\<rparr>;
          c3 = c2\<lparr>a := 1 - (1 / real_of_int sr) / ((1 / (f c2 * 2 * pi)) + (1 / real_of_int sr))\<rparr>;
          c4 = c3\<lparr>b := 1 - a c3\<rparr>;
          c5 = c4\<lparr>c := (1 / (f c4 * 2 * pi)) / ((1 / (f c4 * 2 * pi)) + (1 / real_of_int sr))\<rparr>
      in c5)"

text \<open>
  The loop \<^verbatim>\<open>for (i = 0; i < 4; ++i)\<close> that sets the coefficients of the four filters
  of an array (in \<^verbatim>\<open>setup_subsonic\<close>, and in \<^verbatim>\<open>agc_init\<close> for the phase rotator).
\<close>

fun coe_loop :: "nat \<Rightarrow> nat \<Rightarrow> int \<Rightarrow> real \<Rightarrow> real \<Rightarrow> agc_RC_Filter list
    \<Rightarrow> agc_RC_Filter list" where
  "coe_loop 0 i sr fCutoff qv fs = fs"
| "coe_loop (Suc n) i sr fCutoff qv fs =
     coe_loop n (Suc i) sr fCutoff qv
       (fs[i := (fs ! i)\<lparr>coe := rc_coefficients sr fCutoff qv (coe (fs ! i))\<rparr>])"

definition setup_subsonic :: "agc \<Rightarrow> real \<Rightarrow> agc" where
  "setup_subsonic s fCutoff =
     s\<lparr>RC_HPF_initial := coe_loop 4 0 (sRate s) fCutoff 0.375 (RC_HPF_initial s)\<rparr>"

definition setup_lfdetail :: "agc \<Rightarrow> real \<Rightarrow> real \<Rightarrow> agc" where
  "setup_lfdetail s multi fCutoff =
     s\<lparr>lf_detail := multi,
       RC_LPF_detail := (RC_LPF_detail s)\<lparr>coe :=
         rc_coefficients (sRate s) fCutoff 0.375 (coe (RC_LPF_detail s))\<rparr>\<rparr>"

definition setup_hfdetail :: "agc \<Rightarrow> real \<Rightarrow> real \<Rightarrow> agc" where
  "setup_hfdetail s multi fCutoff =
     s\<lparr>hf_detail := multi,
       RC_HPF_detail := (RC_HPF_detail s)\<lparr>coe :=
         rc_coefficients (sRate s) fCutoff 0.375 (coe (RC_HPF_detail s))\<rparr>\<rparr>"

section \<open>Stereo linking\<close>

definition agc_set_as_partners :: "heap \<Rightarrow> addr \<Rightarrow> addr \<Rightarrow> heap option" where
  "agc_set_as_partners h agc1 agc2 =
     (case h agc1 of
        None \<Rightarrow> None
      | Some s1 \<Rightarrow>
         (let h1 = h(agc1 \<mapsto> s1\<lparr>partner := agc2\<rparr>)
          in (case h1 agc2 of
                None \<Rightarrow> None
              | Some s2 \<Rightarrow> Some (h1(agc2 \<mapsto> s2\<lparr>partner := agc1\<rparr>)))))"

definition agc_set_partnered_mode :: "heap \<Rightarrow> addr \<Rightarrow> int \<Rightarrow> heap option" where
  "agc_set_partnered_mode h p boolean =
     (case h p of
        None \<Rightarrow> None
      | Some s \<Rightarrow> Some (h(p \<mapsto> (if boolean \<noteq> 0 then s\<lparr>host := partner s\<rparr> else s\<lparr>host := p\<rparr>))))"

section \<open>Construction\<close>

definition zero_filter :: agc_RC_Filter where
  "zero_filter = \<lparr>coe = \<lparr>a = 0, b = 0, c = 0, f = 0, q = 0\<rparr>,
                  var = \<lparr>last_in = 0, lp = 0, bp = 0, hp = 0\<rparr>\<rparr>"

text \<open>
  The zero-filled \<^verbatim>\<open>struct agc\<close> that \<^verbatim>\<open>calloc\<close> returns at the address \<open>p\<close>, after
  \<^verbatim>\<open>s->host = s->partner = s\<close> (the two null pointers are not read before that).
\<close>

definition calloc_agc :: "addr \<Rightarrow> agc" where
  "calloc_agc p =
     \<lparr>host = p, partner = p, input = 0, ratio = 0, limit = 0, nr_gain = 0, nr_onthres = 0,
      nr_offthres = 0, gain_interval_amount = 0, nr_state = 0, buffer = [], buffer_len = 0,
      sRate = 0, in_pos = 0, out_pos = 0, gain = 0, DC = 0, ds_bias = 0, ds_gain = 0,
      ds_state = 0, RR_reset_point = [0, 0, 0, 0], RR_signal = [0, 0, 0, 0],
      RR_DS_high = [0, 0, 0, 0], RR_DS_low = [0, 0, 0, 0], use_ducker = 0, df = 0,
      ducker_attack = 0, ducker_release = 0, ducker_hold_timer = 0,
      ducker_hold_timer_resetval = 0, meter_red = 0, meter_yellow = 0, meter_green = 0,
      RC_HPF_initial = [zero_filter, zero_filter, zero_filter, zero_filter], hpstages = 0,
      hf_detail = 0, RC_HPF_detail = zero_filter, lf_detail = 0, RC_LPF_detail = zero_filter,
      use_phaserotator = 0,
      RC_PHR = [zero_filter, zero_filter, zero_filter, zero_filter], RC_F_DS = zero_filter\<rparr>"

text \<open>
  \<open>agc_init struct_alloc buffer_alloc sRate lookahead\<close>: the outcome of the two calls of
  \<^verbatim>\<open>calloc\<close> is a parameter. \<open>struct_alloc\<close> is the address of the new struct, or \<open>None\<close>
  for a null pointer; \<open>buffer_alloc\<close> says whether the allocator gives the delay line. A
  negative length, converted to \<^verbatim>\<open>size_t\<close>, is a size no allocator gives; a length beyond
  \<^verbatim>\<open>INT_MAX\<close> is an undefined conversion, and so is a reset point \<^verbatim>\<open>p4 * 3\<close> beyond
  \<^verbatim>\<open>INT_MAX\<close>. The result is the address and the channel stored there, \<open>None\<close> for the
  null pointer.
\<close>

definition agc_init :: "addr option \<Rightarrow> bool \<Rightarrow> int \<Rightarrow> real \<Rightarrow> (addr \<times> agc) option" where
  "agc_init struct_alloc buffer_alloc sample_rate lookahead =
     (case struct_alloc of
        None \<Rightarrow> None
      | Some p \<Rightarrow>
         (let s0 = (calloc_agc p)\<lparr>sRate := sample_rate\<rparr>;
              s1 = s0\<lparr>buffer_len := c_trunc (real_of_int (sRate s0) * lookahead)\<rparr>
          in if \<not> buffer_alloc \<or> buffer_len s1 < 0 \<or> INT_MAX < buffer_len s1 then None
             else (let s2 = s1\<lparr>buffer := replicate (nat (buffer_len s1)) 0\<rparr>;
                       p4 = buffer_len s2 * 2
                   in if INT_MAX < p4 * 3 then None else
                  (let s3 = s2\<lparr>RR_reset_point := [0, p4 * 1 sdiv 4, p4 * 2 sdiv 4, p4 * 3 sdiv 4]\<rparr>;
                       s4 = setup_ratio s3 3;
                       s5 = s4\<lparr>limit := 0.707,
                              in_pos := buffer_len s4 - 1,
                              out_pos := 1,
                              gain := 0,
                              nr_onthres := 0.1,
                              nr_offthres := 0.1001,
                              nr_gain := 0.5,
                              ds_bias := 0.35,
                              ds_gain := 0.5,
                              meter_green := 1, meter_yellow := 1, meter_red := 1,
                              ducker_release := 1 / (0.250 * real_of_int (sRate s4)),
                              ducker_attack := 1 / real_of_int (buffer_len s4),
                              ducker_hold_timer_resetval := c_trunc (0.500 * real_of_int (sRate s4)),
                              df := 1\<rparr>;
                       s6 = (setup_subsonic s5 100)\<lparr>hpstages := 4\<rparr>;
                       s7 = setup_hfdetail s6 4 2000;
                       s8 = setup_lfdetail s7 4 150;
                       s9 = s8\<lparr>use_phaserotator := 1,
                              RC_PHR := coe_loop 4 0 (sRate s8) 300 0 (RC_PHR s8)\<rparr>;
                       s10 = s9\<lparr>RC_F_DS := (RC_F_DS s9)\<lparr>coe :=
                                rc_coefficients (sRate s9) 1000 1 (coe (RC_F_DS s9))\<rparr>\<rparr>
                   in Some (p, s10)))))"

section \<open>Live parameter updates\<close>

text \<open>The test \<^verbatim>\<open>value[0] == '1'\<close> on a C string (the empty string starts with NUL).\<close>

definition starts_with_1 :: "string \<Rightarrow> int" where
  "starts_with_1 v = (case v of [] \<Rightarrow> 0 | ch # _ \<Rightarrow> (if ch = CHR ''1'' then 1 else 0))"

text \<open>
  \<^verbatim>\<open>strtof\<close> and \<^verbatim>\<open>atoi\<close> belong to the C library: they are parameters. The key
  \<^verbatim>\<open>hpstages\<close> has no \<^verbatim>\<open>return\<close>: control falls through to the comparisons after it.
\<close>

definition valueparse_body :: "(string \<Rightarrow> real) \<Rightarrow> (string \<Rightarrow> int) \<Rightarrow> agc \<Rightarrow> string \<Rightarrow> string \<Rightarrow> agc" where
  "valueparse_body strtof atoi s key val =
     (if key = ''phaserotate'' then s\<lparr>use_phaserotator := starts_with_1 val\<rparr>
      else if key = ''gain'' then setup_ratio s (strtof val)
      else if key = ''limit'' then s\<lparr>limit := 2 powr (strtof val / 6)\<rparr>
      else if key = ''ngthresh'' then
        s\<lparr>nr_onthres := 2 powr ((strtof val - 1) / 6),
          nr_offthres := 2 powr ((strtof val + 1) / 6)\<rparr>
      else if key = ''nggain'' then s\<lparr>nr_gain := 2 powr (strtof val / 6)\<rparr>
      else if key = ''duckenable'' then s\<lparr>use_ducker := starts_with_1 val\<rparr>
      else if key = ''duckrelease'' then
        s\<lparr>ducker_release := 1000 / (strtof val * real_of_int (sRate s))\<rparr>
      else if key = ''duckhold'' then
        s\<lparr>ducker_hold_timer_resetval := atoi val * sRate s sdiv 1000\<rparr>
      else if key = ''deessbias'' then s\<lparr>ds_bias := strtof val\<rparr>
      else if key = ''deessgain'' then s\<lparr>ds_gain := 2 powr (strtof val / 6)\<rparr>
      else if key = ''hpcutoff'' then setup_subsonic s (strtof val)
      else (let s1 = (if key = ''hpstages'' then s\<lparr>hpstages := c_trunc (strtof val + 0.5)\<rparr> else s)
            in if key = ''hfmulti'' then setup_hfdetail s1 (strtof val) (f (coe (RC_HPF_detail s1)))
               else if key = ''hfcutoff'' then setup_hfdetail s1 (hf_detail s1) (strtof val)
               else if key = ''lfmulti'' then setup_lfdetail s1 (strtof val) (f (coe (RC_LPF_detail s1)))
               else if key = ''lfcutoff'' then setup_lfdetail s1 (lf_detail s1) (strtof val)
               else s1))"

definition agc_valueparse :: "(string \<Rightarrow> real) \<Rightarrow> (string \<Rightarrow> int) \<Rightarrow> heap \<Rightarrow> addr \<Rightarrow> string \<Rightarrow> string
    \<Rightarrow> heap option" where
  "agc_valueparse strtof atoi h p key val =
     map_option (\<lambda>s. h(p \<mapsto> valueparse_body strtof atoi s key val)) (h p)"

definition recognized_keys :: "string set" where
  "recognized_keys = {''phaserotate'', ''gain'', ''limit'', ''ngthresh'', ''nggain'',
     ''duckenable'', ''duckrelease'', ''duckhold'', ''deessbias'', ''deessgain'', ''hpcutoff'',
     ''hpstages'', ''hfmulti'', ''hfcutoff'', ''lfmulti'', ''lfcutoff''}"

section \<open>Sequences of calls\<close>

datatype agc_op =
    Stage1 addr real
  | Stage2 addr int
  | Stage3 addr
  | Valueparse addr string string
  | ResetStats addr
  | SetAsPartners addr addr
  | SetPartneredMode addr int

fun step :: "(string \<Rightarrow> real) \<Rightarrow> (string \<Rightarrow> int) \<Rightarrow> heap \<Rightarrow> agc_op \<Rightarrow> heap option" where
  "step strtof atoi h (Stage1 p x) = agc_process_stage1 h p x"
| "step strtof atoi h (Stage2 p m) = agc_process_stage2 h p m"
| "step strtof atoi h (Stage3 p) = map_option (\<lambda>y. h) (agc_process_stage3 h p)"
| "step strtof atoi h (Valueparse p key val) = agc_valueparse strtof atoi h p key val"
| "step strtof atoi h (ResetStats p) = agc_reset_stats h p"
| "step strtof atoi h (SetAsPartners p1 p2) = agc_set_as_partners h p1 p2"
| "step strtof atoi h (SetPartneredMode p m) = agc_set_partnered_mode h p m"

fun run :: "(string \<Rightarrow> real) \<Rightarrow> (string \<Rightarrow> int) \<Rightarrow> heap \<Rightarrow> agc_op list \<Rightarrow> heap option" where
  "run strtof atoi h [] = Some h"
| "run strtof atoi h (op # ops) =
     (case step strtof atoi h op of None \<Rightarrow> None | Some h' \<Rightarrow> run strtof atoi h' ops)"

section \<open>Observations, invariants and runs that the properties speak of\<close>

text \<open>
  What the operations do to the record of one channel: \<open>chan_step s s'\<close> holds when \<open>s'\<close>
  is \<open>s\<close> after one call of an operation (on this channel or on another one).
\<close>

inductive chan_step :: "(string \<Rightarrow> real) \<Rightarrow> (string \<Rightarrow> int) \<Rightarrow> agc \<Rightarrow> agc \<Rightarrow> bool"
  for strtof :: "string \<Rightarrow> real" and atoi :: "string \<Rightarrow> int" where
  cs_same: "chan_step strtof atoi s s"
| cs_stage1: "stage1_body hs s x = Some s' \<Longrightarrow> chan_step strtof atoi s s'"
| cs_stage2: "stage2_body p ps s m = Some s' \<Longrightarrow> chan_step strtof atoi s s'"
| cs_valueparse: "chan_step strtof atoi s (valueparse_body strtof atoi s key val)"
| cs_reset: "chan_step strtof atoi s (s\<lparr>meter_green := 1, meter_yellow := 1, meter_red := 1, df := 1\<rparr>)"
| cs_partner: "chan_step strtof atoi s (s\<lparr>partner := p\<rparr>)"
| cs_host: "chan_step strtof atoi s (s\<lparr>host := p\<rparr>)"

text \<open>
  The envelope level \<^verbatim>\<open>amp\<close> and the state of the de-esser that a control update of the
  channel \<open>s\<close> at \<open>p\<close> (partner \<open>ps\<close>) computes.
\<close>

definition stage2_level :: "addr \<Rightarrow> agc \<Rightarrow> agc \<Rightarrow> real" where
  "stage2_level p ps s =
     snd (agc_quad_rr (RR_signal s) (RR_reset_point s) (stage2_phase s) (sidechain_input p ps s))"

definition stage2_ds_state :: "addr \<Rightarrow> agc \<Rightarrow> agc \<Rightarrow> int" where
  "stage2_ds_state p ps s =
     (let fds = deess_sidechain (RC_F_DS s) (sidechain_input p ps s)
      in deesser s
           (snd (agc_quad_rr (RR_DS_high s) (RR_reset_point s) (stage2_phase s) (hp (var fds))))
           (snd (agc_quad_rr (RR_DS_low s) (RR_reset_point s) (stage2_phase s) (lp (var fds)))))"

text \<open>
  \<open>ratio_inv\<close>: the gain step is the ratio over the length of the delay line, as
  \<^verbatim>\<open>setup_ratio\<close> leaves it. \<open>gate_inv\<close>: the offset threshold of the noise gate is above
  the onset threshold. Both hold after \<^verbatim>\<open>agc_init\<close> and every operation keeps them.
\<close>

definition ratio_inv :: "agc \<Rightarrow> bool" where
  "ratio_inv s \<longleftrightarrow>
     gain_interval_amount s = ratio s / real_of_int (buffer_len s) \<and> 0 < ratio s \<and>
     0 \<le> buffer_len s"

definition gate_inv :: "agc \<Rightarrow> bool" where
  "gate_inv s \<longleftrightarrow> nr_onthres s < nr_offthres s"





text \<open>
  \<open>quiet_update h p op\<close>: if \<open>op\<close> is a control update of the channel at \<open>p\<close>, hosted by
  itself, the level it computes is strictly between the onset and the offset threshold.
  \<open>gate_quiet\<close> says so of every operation of a sequence; \<open>gate_trace\<close> lists the state of
  the gate after each operation, and \<open>changes\<close> counts the places where a list changes.
\<close>

definition quiet_update :: "heap \<Rightarrow> addr \<Rightarrow> agc_op \<Rightarrow> bool" where
  "quiet_update h p op =
     (case op of
        Stage2 p' m \<Rightarrow>
          (case h p of
             None \<Rightarrow> True
           | Some s \<Rightarrow>
              (case h (partner s) of
                 None \<Rightarrow> True
               | Some ps \<Rightarrow>
                  if p' = p \<and> host s = p
                  then nr_onthres s < stage2_level p ps s \<and> stage2_level p ps s < nr_offthres s
                  else True))
      | _ \<Rightarrow> True)"

fun gate_quiet :: "(string \<Rightarrow> real) \<Rightarrow> (string \<Rightarrow> int) \<Rightarrow> heap \<Rightarrow> addr \<Rightarrow> agc_op list \<Rightarrow> bool" where
  "gate_quiet strtof atoi h p [] = True"
| "gate_quiet strtof atoi h p (op # ops) =
     (quiet_update h p op \<and>
      (case step strtof atoi h op of
         None \<Rightarrow> True
       | Some h' \<Rightarrow> gate_quiet strtof atoi h' p ops))"

fun gate_trace :: "(string \<Rightarrow> real) \<Rightarrow> (string \<Rightarrow> int) \<Rightarrow> heap \<Rightarrow> addr \<Rightarrow> agc_op list \<Rightarrow> int list" where
  "gate_trace strtof atoi h p [] = []"
| "gate_trace strtof atoi h p (op # ops) =
     (case step strtof atoi h op of
        None \<Rightarrow> []
      | Some h' \<Rightarrow>
         (case h' p of
            None \<Rightarrow> []
          | Some s' \<Rightarrow> nr_state s' # gate_trace strtof atoi h' p ops))"

fun changes :: "int list \<Rightarrow> nat" where
  "changes (x # y # zs) = (if x \<noteq> y then 1 else 0) + changes (y # zs)"
| "changes zs = 0"


text \<open>
  The concrete runs of this theory start from the channel that \<^verbatim>\<open>agc_init\<close> makes for
  48000 Hz and 10 ms. \<open>strtof_01\<close> reads the two value strings they use as \<^verbatim>\<open>strtof\<close>
  does. The four
  parameter updates of \<open>transparent_ops\<close> switch the phase rotator and the subsonic bank
  off and set both detail multipliers to zero, so that stage 1 stores the sample as it is.
\<close>

definition strtof_01 :: "string \<Rightarrow> real" where
  "strtof_01 v = (if v = ''1'' then 1 else 0)"

definition transparent_ops :: "addr \<Rightarrow> agc_op list" where
  "transparent_ops p =
     [Valueparse p ''phaserotate'' ''0'', Valueparse p ''hpstages'' ''0'',
      Valueparse p ''hfmulti'' ''0'', Valueparse p ''lfmulti'' ''0'']"

definition make_transparent :: "(string \<Rightarrow> int) \<Rightarrow> agc \<Rightarrow> agc" where
  "make_transparent atoi s =
     valueparse_body strtof_01 atoi
       (valueparse_body strtof_01 atoi
         (valueparse_body strtof_01 atoi
           (valueparse_body strtof_01 atoi s ''phaserotate'' ''0'')
           ''hpstages'' ''0'')
         ''hfmulti'' ''0'')
       ''lfmulti'' ''0''"


section \<open>Telemetry after a reset\<close>

lemma level2db_unity: "level2db 1 = Some 0"
  by (simp add: level2db_def c_trunc_def)

text \<open>
  Claim C9. For every channel, \<^verbatim>\<open>agc_reset_stats\<close> followed by \<^verbatim>\<open>agc_get_meter_levels\<close>
  gives the three meters 0 dB, and \<^verbatim>\<open>agc_get_ducking_factor\<close> right after the reset
  gives 1.
\<close>

theorem reset_stats_round_trip:
  "h p = Some s \<Longrightarrow>
   \<exists>h'. agc_reset_stats h p = Some h' \<and>
        agc_get_meter_levels h' p = Some (0, 0, 0) \<and>
        agc_get_ducking_factor h' p = Some 1"
  by (simp add: agc_reset_stats_def agc_get_meter_levels_def agc_get_ducking_factor_def
      level2db_unity)

theorem reset_stats_round_trip_witness:
  "\<exists>h'. agc_reset_stats [0 \<mapsto> calloc_agc 0] 0 = Some h' \<and>
        agc_get_meter_levels h' 0 = Some (0, 0, 0) \<and>
        agc_get_ducking_factor h' 0 = Some 1"
  using reset_stats_round_trip [of "[0 \<mapsto> calloc_agc 0]" 0 "calloc_agc 0"] by simp

section \<open>What a parameter update leaves alone\<close>

lemma map_var_coe_loop: "map var (coe_loop n i sr fc qv fs) = map var fs"
proof (induction n arbitrary: i fs)
  case 0
  show ?case by simp
next
  case (Suc n)
  have "map var (fs[i := (fs ! i)\<lparr>coe := rc_coefficients sr fc qv (coe (fs ! i))\<rparr>]) = map var fs"
    by (cases "i < length fs") (simp_all add: map_update list_update_same_conv list_update_beyond)
  with Suc show ?case by simp
qed

lemma valueparse_body_frame:
  "host (valueparse_body strtof atoi s key val) = host s \<and>
   partner (valueparse_body strtof atoi s key val) = partner s \<and>
   buffer (valueparse_body strtof atoi s key val) = buffer s \<and>
   buffer_len (valueparse_body strtof atoi s key val) = buffer_len s \<and>
   in_pos (valueparse_body strtof atoi s key val) = in_pos s \<and>
   out_pos (valueparse_body strtof atoi s key val) = out_pos s \<and>
   gain (valueparse_body strtof atoi s key val) = gain s \<and>
   map var (RC_HPF_initial (valueparse_body strtof atoi s key val)) = map var (RC_HPF_initial s) \<and>
   var (RC_HPF_detail (valueparse_body strtof atoi s key val)) = var (RC_HPF_detail s) \<and>
   var (RC_LPF_detail (valueparse_body strtof atoi s key val)) = var (RC_LPF_detail s) \<and>
   map var (RC_PHR (valueparse_body strtof atoi s key val)) = map var (RC_PHR s) \<and>
   var (RC_F_DS (valueparse_body strtof atoi s key val)) = var (RC_F_DS s)"
  by (simp add: valueparse_body_def setup_ratio_def setup_subsonic_def setup_hfdetail_def
      setup_lfdetail_def map_var_coe_loop Let_def)

lemma valueparse_body_unrecognized:
  "key \<notin> recognized_keys \<Longrightarrow> valueparse_body strtof atoi s key val = s"
  by (simp add: valueparse_body_def recognized_keys_def)

text \<open>
  Claim C10. For every key and value, \<^verbatim>\<open>agc_valueparse\<close> changes the heap at the
  channel's own address only, and there it keeps the host and partner pointers, the
  contents and the length of the delay line, both cursors, the applied gain and the
  variables (the running state) of every filter; for a key outside the recognized set the
  heap is unchanged.
\<close>

theorem valueparse_frame:
  "h p = Some s \<Longrightarrow>
   \<exists>s'. agc_valueparse strtof atoi h p key val = Some (h(p \<mapsto> s')) \<and>
        host s' = host s \<and> partner s' = partner s \<and>
        buffer s' = buffer s \<and> buffer_len s' = buffer_len s \<and>
        in_pos s' = in_pos s \<and> out_pos s' = out_pos s \<and> gain s' = gain s \<and>
        map var (RC_HPF_initial s') = map var (RC_HPF_initial s) \<and>
        var (RC_HPF_detail s') = var (RC_HPF_detail s) \<and>
        var (RC_LPF_detail s') = var (RC_LPF_detail s) \<and>
        map var (RC_PHR s') = map var (RC_PHR s) \<and>
        var (RC_F_DS s') = var (RC_F_DS s) \<and>
        (key \<notin> recognized_keys \<longrightarrow> agc_valueparse strtof atoi h p key val = Some h)"
proof -
  assume hp: "h p = Some s"
  let ?s' = "valueparse_body strtof atoi s key val"
  have 1: "agc_valueparse strtof atoi h p key val = Some (h(p \<mapsto> ?s'))"
    using hp by (simp add: agc_valueparse_def)
  have 2: "key \<notin> recognized_keys \<longrightarrow> agc_valueparse strtof atoi h p key val = Some h"
    using hp by (auto simp: agc_valueparse_def valueparse_body_unrecognized)
  show ?thesis
    using 1 2 valueparse_body_frame [of strtof atoi s key val] by blast
qed

theorem valueparse_frame_witness:
  "agc_valueparse (\<lambda>v. 0) (\<lambda>v. 0) [0 \<mapsto> calloc_agc 0] 0 ''volume'' ''1'' = Some [0 \<mapsto> calloc_agc 0]"
  using valueparse_frame [of "[0 \<mapsto> calloc_agc 0]" 0 "calloc_agc 0" "\<lambda>v. 0" "\<lambda>v. 0" "''volume''" "''1''"]
  by (auto simp add: recognized_keys_def)

section \<open>A channel that defers to its partner\<close>



section \<open>Every operation as a step of one channel\<close>

subsection \<open>Fields the processing stages keep\<close>

lemma ducker_frame:
  "in_pos (ducker s m fa am) = in_pos s \<and> out_pos (ducker s m fa am) = out_pos s \<and>
   buffer_len (ducker s m fa am) = buffer_len s \<and> ratio (ducker s m fa am) = ratio s \<and>
   gain_interval_amount (ducker s m fa am) = gain_interval_amount s \<and>
   gain (ducker s m fa am) = gain s \<and> nr_state (ducker s m fa am) = nr_state s \<and>
   ds_state (ducker s m fa am) = ds_state s \<and>
   nr_onthres (ducker s m fa am) = nr_onthres s \<and> nr_offthres (ducker s m fa am) = nr_offthres s \<and>
   use_ducker (ducker s m fa am) = use_ducker s \<and> host (ducker s m fa am) = host s"
  by (simp add: ducker_def Let_def)

lemma meters_frame:
  "in_pos (meters s fa) = in_pos s \<and> out_pos (meters s fa) = out_pos s \<and>
   buffer_len (meters s fa) = buffer_len s \<and> ratio (meters s fa) = ratio s \<and>
   gain_interval_amount (meters s fa) = gain_interval_amount s \<and>
   gain (meters s fa) = gain s \<and> nr_state (meters s fa) = nr_state s \<and>
   ds_state (meters s fa) = ds_state s \<and>
   nr_onthres (meters s fa) = nr_onthres s \<and> nr_offthres (meters s fa) = nr_offthres s \<and>
   use_ducker (meters s fa) = use_ducker s \<and> df (meters s fa) = df s \<and> host (meters s fa) = host s"
  by (simp add: meters_def)

lemma stage2_body_frame:
  "stage2_body p ps s m = Some s' \<Longrightarrow>
   in_pos s' = in_pos s \<and> out_pos s' = out_pos s \<and> buffer_len s' = buffer_len s \<and>
   ratio s' = ratio s \<and> gain_interval_amount s' = gain_interval_amount s \<and>
   nr_onthres s' = nr_onthres s \<and> nr_offthres s' = nr_offthres s \<and>
   use_ducker s' = use_ducker s \<and> host s' = host s"
  by (auto simp: stage2_body_def Let_def ducker_frame meters_frame split: prod.splits if_splits)

lemma stage1_body_frame:
  "stage1_body hs s x = Some s' \<Longrightarrow>
   in_pos s' = in_pos s + 1 \<and> out_pos s' = out_pos s + 1 \<and> buffer_len s' = buffer_len s \<and>
   ratio s' = ratio s \<and> gain_interval_amount s' = gain_interval_amount s \<and>
   gain s' = gain s \<and> nr_state s' = nr_state s \<and>
   nr_onthres s' = nr_onthres s \<and> nr_offthres s' = nr_offthres s \<and>
   use_ducker s' = use_ducker s \<and> df s' = df s \<and> host s' = host s \<and>
   hpstages s' = hpstages s \<and> length (buffer s') = length (buffer s)"
  by (auto simp: stage1_body_def Let_def split: option.splits prod.splits if_splits)

subsection \<open>A step of the heap is a step of each channel\<close>

lemma stage1_chan:
  "agc_process_stage1 h p1 x = Some h' \<Longrightarrow> h p = Some s \<Longrightarrow>
   \<exists>s'. h' p = Some s' \<and> chan_step strtof atoi s s'"
  apply (auto simp: agc_process_stage1_def cs_same split: option.splits if_splits)
  apply (erule cs_stage1)
  done

lemma stage2_chan:
  "agc_process_stage2 h p1 m = Some h' \<Longrightarrow> h p = Some s \<Longrightarrow>
   \<exists>s'. h' p = Some s' \<and> chan_step strtof atoi s s'"
  apply (auto simp: agc_process_stage2_def cs_same split: option.splits if_splits)
  apply (erule cs_stage2)
  done

lemma valueparse_chan:
  "agc_valueparse strtof atoi h p1 key val = Some h' \<Longrightarrow> h p = Some s \<Longrightarrow>
   \<exists>s'. h' p = Some s' \<and> chan_step strtof atoi s s'"
  by (auto simp: agc_valueparse_def cs_same cs_valueparse)

lemma reset_chan:
  "agc_reset_stats h p1 = Some h' \<Longrightarrow> h p = Some s \<Longrightarrow>
   \<exists>s'. h' p = Some s' \<and> chan_step strtof atoi s s'"
  by (auto simp: agc_reset_stats_def cs_same cs_reset)

lemma partners_chan:
  "agc_set_as_partners h p1 p2 = Some h' \<Longrightarrow> h p = Some s \<Longrightarrow>
   \<exists>s'. h' p = Some s' \<and> chan_step strtof atoi s s'"
  by (auto simp: agc_set_as_partners_def Let_def cs_same cs_partner split: option.splits if_splits)

lemma mode_chan:
  "agc_set_partnered_mode h p1 m = Some h' \<Longrightarrow> h p = Some s \<Longrightarrow>
   \<exists>s'. h' p = Some s' \<and> chan_step strtof atoi s s'"
  by (auto simp: agc_set_partnered_mode_def cs_same cs_host split: option.splits if_splits)

lemma step_chan:
  "step strtof atoi h op = Some h' \<Longrightarrow> h p = Some s \<Longrightarrow>
   \<exists>s'. h' p = Some s' \<and> chan_step strtof atoi s s'"
proof (cases op)
  case (Stage3 p1)
  assume "step strtof atoi h op = Some h'" "h p = Some s"
  with Stage3 show ?thesis by (auto simp: cs_same)
qed (auto simp: stage1_chan stage2_chan valueparse_chan reset_chan partners_chan mode_chan)

lemma run_chan:
  "run strtof atoi h ops = Some h' \<Longrightarrow> h p = Some s \<Longrightarrow>
   \<exists>s'. h' p = Some s' \<and> (chan_step strtof atoi)\<^sup>*\<^sup>* s s'"
proof (induction ops arbitrary: h s)
  case Nil
  then show ?case by auto
next
  case (Cons op ops)
  from Cons.prems obtain h1 where h1: "step strtof atoi h op = Some h1"
    and r: "run strtof atoi h1 ops = Some h'"
    by (auto split: option.splits)
  from step_chan [OF h1 Cons.prems(2)] obtain s1 where
    s1: "h1 p = Some s1" "chan_step strtof atoi s s1" by blast
  from Cons.IH [OF r s1(1)] obtain s' where
    s': "h' p = Some s'" "(chan_step strtof atoi)\<^sup>*\<^sup>* s1 s'" by blast
  from s1(2) s'(2) have "(chan_step strtof atoi)\<^sup>*\<^sup>* s s'"
    by (auto intro: converse_rtranclp_into_rtranclp)
  with s'(1) show ?case by blast
qed

section \<open>Construction: the fields after \<^verbatim>\<open>agc_init\<close>\<close>

lemma init_fields:
  "agc_init sa ba sr la = Some (p, s) \<Longrightarrow>
   buffer_len s = c_trunc (real_of_int sr * la) \<and> buffer s = replicate (nat (buffer_len s)) 0 \<and>
   0 \<le> buffer_len s \<and> buffer_len s \<le> INT_MAX \<and>
   in_pos s = buffer_len s - 1 \<and> out_pos s = 1 \<and> host s = p \<and> partner s = p \<and>
   ratio s = 10 powr (3 / 20) \<and> gain_interval_amount s = ratio s / real_of_int (buffer_len s) \<and>
   nr_onthres s = 0.1 \<and> nr_offthres s = 0.1001 \<and> nr_state s = 0 \<and> df s = 1 \<and> use_ducker s = 0 \<and> sRate s = sr \<and> hpstages s = 4"
  by (auto simp: agc_init_def Let_def setup_ratio_def setup_subsonic_def setup_hfdetail_def
      setup_lfdetail_def calloc_agc_def split: option.splits if_splits)

lemma agc_init_Some:
  "0 \<le> c_trunc (real_of_int sr * la) \<Longrightarrow> c_trunc (real_of_int sr * la) * 2 * 3 \<le> INT_MAX \<Longrightarrow>
   \<exists>s. agc_init (Some p) True sr la = Some (p, s)"
  by (simp add: agc_init_def Let_def calloc_agc_def)

section \<open>Stage 1 returns\<close>

lemma smod_nonneg: "0 \<le> k \<Longrightarrow> 0 < l \<Longrightarrow> k smod l = k mod (l::int)"
  by (cases "k = 0") (simp_all add: smod_int_alt_def)

lemma hpf_bank_Some: "i + n \<le> 4 \<Longrightarrow> \<exists>r. hpf_bank n i hs ss x = Some r"
  by (induction n arbitrary: i ss x) (auto simp: Let_def split: prod.splits)

lemma stage1_body_Some:
  assumes "hpstages hs \<le> 4" "0 < buffer_len s" "int (length (buffer s)) = buffer_len s"
    "0 \<le> in_pos s" "in_pos s < INT_MAX" "out_pos s < INT_MAX"
  shows "\<exists>s'. stage1_body hs s x = Some s'"
proof -
  have "0 + nat (hpstages hs) \<le> 4" using assms(1) by simp
  from hpf_bank_Some [OF this] obtain r where
    r: "hpf_bank (nat (hpstages hs)) 0 (RC_HPF_initial hs) (RC_HPF_initial s) x = Some r"
    by blast
  have k: "0 \<le> in_pos s smod buffer_len s" "in_pos s smod buffer_len s < buffer_len s"
    using assms(2,4) by (simp_all add: smod_nonneg)
  show ?thesis
    using r k assms by (auto simp: stage1_body_def Let_def split: prod.splits)
qed

lemma run_stage1_Some:
  "h p = Some s \<Longrightarrow> host s = p \<Longrightarrow> hpstages s \<le> 4 \<Longrightarrow> 0 < buffer_len s \<Longrightarrow>
   int (length (buffer s)) = buffer_len s \<Longrightarrow> 0 \<le> in_pos s \<Longrightarrow>
   in_pos s + int n \<le> INT_MAX \<Longrightarrow> out_pos s + int n \<le> INT_MAX \<Longrightarrow>
   \<exists>h'. run strtof atoi h (replicate n (Stage1 p x)) = Some h'"
proof (induction n arbitrary: s h)
  case 0
  show ?case by simp
next
  case (Suc n)
  from Suc.prems obtain s1 where s1: "stage1_body s s x = Some s1"
    using stage1_body_Some [of s s x] by auto
  note fr = stage1_body_frame [OF s1]
  have st: "agc_process_stage1 h p x = Some (h(p \<mapsto> s1))"
    using Suc.prems(1,2) s1 by (simp add: agc_process_stage1_def)
  have "\<exists>h'. run strtof atoi (h(p \<mapsto> s1)) (replicate n (Stage1 p x)) = Some h'"
    using Suc.prems fr by (intro Suc.IH [of _ s1]) auto
  with st show ?case by simp
qed

lemma init_48000_run:
  "\<exists>s0 h'. agc_init (Some 0) True 48000 (1 / 100) = Some (0, s0) \<and> buffer_len s0 = 480 \<and>
     run (\<lambda>v. 0) (\<lambda>v. 0) [0 \<mapsto> s0] (replicate 480 (Stage1 0 0)) = Some h'"
proof -
  have t: "c_trunc (real_of_int 48000 * (1 / 100)) = 480"
    by (simp add: c_trunc_def)
  obtain s0 where i: "agc_init (Some 0) True 48000 (1 / 100) = Some (0, s0)"
    using agc_init_Some [of 48000 "1 / 100" 0] t by (auto simp: INT_MAX_def)
  note fi = init_fields [OF i]
  have len: "buffer_len s0 = 480" using fi t by simp
  obtain h' where r: "run (\<lambda>v. 0) (\<lambda>v. 0) [0 \<mapsto> s0] (replicate 480 (Stage1 0 0)) = Some h'"
    using run_stage1_Some [of "[0 \<mapsto> s0]" 0 s0 480 "\<lambda>v. 0" "\<lambda>v. 0" 0] fi len
    by (auto simp: INT_MAX_def)
  from i len r show ?thesis by blast
qed

section \<open>The cursors of the delay line\<close>

lemma chan_step_cursors:
  "chan_step strtof atoi s s' \<Longrightarrow>
   in_pos s' - out_pos s' = in_pos s - out_pos s \<and> buffer_len s' = buffer_len s"
proof (induction rule: chan_step.induct)
  case (cs_stage1 hs s x s')
  then show ?case using stage1_body_frame [of hs s x s'] by simp
next
  case (cs_stage2 p ps s m s')
  then show ?case using stage2_body_frame [of p ps s m s'] by simp
next
  case (cs_valueparse s key val)
  show ?case using valueparse_body_frame [of strtof atoi s key val] by simp
qed simp_all

lemma chan_steps_cursors:
  "(chan_step strtof atoi)\<^sup>*\<^sup>* s s' \<Longrightarrow>
   in_pos s' - out_pos s' = in_pos s - out_pos s \<and> buffer_len s' = buffer_len s"
  by (induction rule: rtranclp_induct) (auto dest: chan_step_cursors)

text \<open>
  Claim C1, as the code has it. \<^verbatim>\<open>agc_init\<close> sets the write cursor to
  \<^verbatim>\<open>buffer_len - 1\<close> and the read cursor to 1, and stage 1 advances both by one: for
  every channel that \<^verbatim>\<open>agc_init\<close> returns and every sequence of operations that runs
  (on any channels of the heap), the write cursor minus the read cursor is the buffer
  length minus 2, and the buffer length is the one of the construction.
\<close>

theorem cursor_offset:
  "agc_init sa ba sr la = Some (p, s0) \<Longrightarrow> run strtof atoi (h(p \<mapsto> s0)) ops = Some h' \<Longrightarrow>
   \<exists>s'. h' p = Some s' \<and> in_pos s' - out_pos s' = buffer_len s' - 2 \<and>
        buffer_len s' = buffer_len s0"
proof -
  assume i: "agc_init sa ba sr la = Some (p, s0)"
    and r: "run strtof atoi (h(p \<mapsto> s0)) ops = Some h'"
  from run_chan [OF r, of p s0] obtain s' where
    s': "h' p = Some s'" "(chan_step strtof atoi)\<^sup>*\<^sup>* s0 s'" by auto
  from chan_steps_cursors [OF s'(2)] init_fields [OF i] s'(1) show ?thesis by simp
qed

theorem cursor_offset_witness:
  "\<exists>s0 h' s'. agc_init (Some 0) True 48000 (1 / 100) = Some (0, s0) \<and>
     run (\<lambda>v. 0) (\<lambda>v. 0) [0 \<mapsto> s0] (replicate 480 (Stage1 0 0)) = Some h' \<and>
     h' 0 = Some s' \<and> in_pos s' - out_pos s' = buffer_len s' - 2 \<and> buffer_len s' = 480"
proof -
  from init_48000_run obtain s0 h' where
    i: "agc_init (Some 0) True 48000 (1 / 100) = Some (0, s0)" and len: "buffer_len s0 = 480"
    and r: "run (\<lambda>v. 0) (\<lambda>v. 0) [0 \<mapsto> s0] (replicate 480 (Stage1 0 0)) = Some h'"
    by blast
  from cursor_offset [OF i r] len i r show ?thesis by auto
qed

text \<open>
  The claim as stated fails: after the warm-up of 480 samples of a channel made for
  48000 Hz and 10 ms, the difference of the cursors is not the buffer length 480.
\<close>

theorem cursor_offset_counterexample:
  "\<exists>s0 h' s'. agc_init (Some 0) True 48000 (1 / 100) = Some (0, s0) \<and>
     run (\<lambda>v. 0) (\<lambda>v. 0) [0 \<mapsto> s0] (replicate 480 (Stage1 0 0)) = Some h' \<and>
     h' 0 = Some s' \<and> buffer_len s' = 480 \<and> in_pos s' - out_pos s' \<noteq> buffer_len s'"
proof -
  from init_48000_run obtain s0 h' where
    i: "agc_init (Some 0) True 48000 (1 / 100) = Some (0, s0)" and len: "buffer_len s0 = 480"
    and r: "run (\<lambda>v. 0) (\<lambda>v. 0) [0 \<mapsto> s0] (replicate 480 (Stage1 0 0)) = Some h'"
    by blast
  from run_chan [OF r, of 0 s0] obtain s' where
    s': "h' 0 = Some s'" "(chan_step (\<lambda>v. 0) (\<lambda>v. 0))\<^sup>*\<^sup>* s0 s'" by auto
  from chan_steps_cursors [OF s'(2)] init_fields [OF i] len
  have "buffer_len s' = 480" "in_pos s' - out_pos s' \<noteq> buffer_len s'" by simp_all
  with i r s'(1) show ?thesis by blast
qed

section \<open>The capacity of the delay line\<close>




section \<open>The control update of a hosting channel\<close>

lemma stage2_body_Some: "buffer_len s \<noteq> 0 \<Longrightarrow> \<exists>s'. stage2_body p ps s m = Some s'"
  by (simp add: stage2_body_def Let_def split: prod.splits)

lemma stage2_body_states:
  "stage2_body p ps s m = Some s' \<Longrightarrow>
   nr_state s' = noise_gate s (stage2_level p ps s) \<and> ds_state s' = stage2_ds_state p ps s"
  by (auto simp: stage2_body_def stage2_level_def stage2_ds_state_def Let_def ducker_frame
      meters_frame split: prod.splits if_splits)

lemma stage2_body_gain:
  "stage2_body p ps s m = Some s' \<Longrightarrow>
   gain s' = modulate_gain (gain s)
     (min (limit s / (stage2_level p ps s + 0.0001)) (ratio s)
        * (if nr_state s' = 1 then nr_gain s else 1)
        * (if ds_state s' = 1 then ds_gain s else 1))
     (gain_interval_amount s)"
  by (auto simp: stage2_body_def stage2_level_def Let_def ducker_frame
      meters_frame raw_factor_def min_def split: prod.splits if_splits)


lemma agc_process_stage2_Some:
  "h p = Some s \<Longrightarrow> host s = p \<Longrightarrow> h (partner s) = Some ps \<Longrightarrow> buffer_len s \<noteq> 0 \<Longrightarrow>
   \<exists>s'. agc_process_stage2 h p m = Some (h(p \<mapsto> s')) \<and> stage2_body p ps s m = Some s'"
  using stage2_body_Some [of s p ps m] by (auto simp: agc_process_stage2_def)

section \<open>Invariants of the parameters\<close>

lemma valueparse_body_invs:
  "ratio_inv s \<Longrightarrow> ratio_inv (valueparse_body strtof atoi s key val)"
  "gate_inv s \<Longrightarrow> gate_inv (valueparse_body strtof atoi s key val)"
  by (auto simp: valueparse_body_def setup_ratio_def setup_subsonic_def setup_hfdetail_def
      setup_lfdetail_def Let_def ratio_inv_def gate_inv_def)

lemma chan_step_invs:
  "chan_step strtof atoi s s' \<Longrightarrow> (ratio_inv s \<longrightarrow> ratio_inv s') \<and> (gate_inv s \<longrightarrow> gate_inv s')"
proof (induction rule: chan_step.induct)
  case (cs_stage1 hs s x s')
  then show ?case using stage1_body_frame [of hs s x s'] by (simp add: ratio_inv_def gate_inv_def)
next
  case (cs_stage2 p ps s m s')
  then show ?case using stage2_body_frame [of p ps s m s'] by (simp add: ratio_inv_def gate_inv_def)
next
  case (cs_valueparse s key val)
  show ?case using valueparse_body_invs [of s strtof atoi key val] by simp
qed (simp_all add: ratio_inv_def gate_inv_def)

lemma chan_steps_invs:
  "(chan_step strtof atoi)\<^sup>*\<^sup>* s s' \<Longrightarrow> (ratio_inv s \<longrightarrow> ratio_inv s') \<and> (gate_inv s \<longrightarrow> gate_inv s')"
  by (induction rule: rtranclp_induct) (auto dest: chan_step_invs)

lemma init_invs: "agc_init sa ba sr la = Some (p, s) \<Longrightarrow> ratio_inv s \<and> gate_inv s"
  using init_fields [of sa ba sr la p s] by (simp add: ratio_inv_def gate_inv_def)

section \<open>The ramp of the applied gain\<close>



section \<open>The target gain\<close>

text \<open>
  Claim C3. On every control update of a channel that is its own host, the gain is ramped
  towards the target \<open>min (limit / (level + 0.0001)) ratio\<close>, multiplied by the noise-gate
  attenuation when the gate is closed after this update's latch and by the de-esser
  attenuation when the de-esser is active.
\<close>

theorem target_gain:
  assumes "h p = Some s" and "host s = p" and "h (partner s) = Some ps"
    and "agc_process_stage2 h p m = Some h'" and "h' p = Some s'"
  shows "gain s' = modulate_gain (gain s)
     (min (limit s / (stage2_level p ps s + 0.0001)) (ratio s)
        * (if nr_state s' = 1 then nr_gain s else 1)
        * (if ds_state s' = 1 then ds_gain s else 1))
     (gain_interval_amount s)"
proof -
  from assms have "stage2_body p ps s m = Some s'"
    by (auto simp: agc_process_stage2_def split: option.splits)
  then show ?thesis by (rule stage2_body_gain)
qed

theorem target_gain_witness:
  "\<exists>s0 h2 s2. agc_init (Some 0) True 48000 (1 / 100) = Some (0, s0) \<and>
     agc_process_stage2 [0 \<mapsto> s0] 0 0 = Some h2 \<and> h2 0 = Some s2 \<and>
     gain s2 = modulate_gain (gain s0)
       (min (limit s0 / (stage2_level 0 s0 s0 + 0.0001)) (ratio s0)
          * (if nr_state s2 = 1 then nr_gain s0 else 1)
          * (if ds_state s2 = 1 then ds_gain s0 else 1))
       (gain_interval_amount s0)"
proof -
  from init_48000_run obtain s0 where
    i: "agc_init (Some 0) True 48000 (1 / 100) = Some (0, s0)" and len: "buffer_len s0 = 480"
    by blast
  note fi = init_fields [OF i]
  from agc_process_stage2_Some [of "[0 \<mapsto> s0]" 0 s0 s0 0] fi len obtain s2 where
    s2: "agc_process_stage2 [0 \<mapsto> s0] 0 0 = Some ([0 \<mapsto> s0](0 \<mapsto> s2))" by auto
  from target_gain [OF _ _ _ s2, of s0 s0 s2] fi i s2 show ?thesis by auto
qed

section \<open>The envelope follower: one call\<close>

lemma length_4_cases: "length xs = 4 \<Longrightarrow> \<exists>x0 x1 x2 x3. xs = [x0, x1, x2, x3]"
  by (auto simp: length_Suc_conv eval_nat_numeral)

lemma rr_loop_Suc:
  assumes "i < length st"
  shows "rr_loop (Suc n) i st rp ph y hi =
     rr_loop n (Suc i) (st[i := max (if rp ! i = ph then 0 else st ! i) y]) rp ph y
       (max hi (max (if rp ! i = ph then 0 else st ! i) y))"
proof -
  let ?g = "max (if rp ! i = ph then 0 else st ! i) y"
  define st1 where "st1 = (if rp ! i = ph then st[i := 0] else st)"
  define st2 where "st2 = (if y > st1 ! i then st1[i := y] else st1)"
  have u: "rr_loop (Suc n) i st rp ph y hi =
      rr_loop n (Suc i) st2 rp ph y (if st2 ! i > hi then st2 ! i else hi)"
    by (simp add: Let_def st1_def st2_def)
  have v: "st2 = st[i := ?g]"
    using assms by (auto simp: list_eq_iff_nth_eq nth_list_update st1_def st2_def max_def)
  have w: "st2 ! i = ?g" using assms by (simp add: v)
  have "(if st2 ! i > hi then st2 ! i else hi) = max hi ?g"
    unfolding w by (simp add: max_def)
  with u v show ?thesis by simp
qed

lemma quad_rr_explicit:
  "agc_quad_rr [x0, x1, x2, x3] [r0, r1, r2, r3] ph x =
     ([max (if r0 = ph then 0 else x0) \<bar>x\<bar>, max (if r1 = ph then 0 else x1) \<bar>x\<bar>,
       max (if r2 = ph then 0 else x2) \<bar>x\<bar>, max (if r3 = ph then 0 else x3) \<bar>x\<bar>],
      max (max (max (max 0 (max (if r0 = ph then 0 else x0) \<bar>x\<bar>))
        (max (if r1 = ph then 0 else x1) \<bar>x\<bar>))
        (max (if r2 = ph then 0 else x2) \<bar>x\<bar>))
        (max (if r3 = ph then 0 else x3) \<bar>x\<bar>))"
  by (simp add: agc_quad_rr_def eval_nat_numeral rr_loop_Suc del: rr_loop.simps(2)
      split del: if_split cong: if_cong)




lemma slot_dominated: "x0 \<le> y \<Longrightarrow> 0 \<le> y \<Longrightarrow> max (if r = ph then 0 else x0) y = (y::real)"
  by simp

lemma quad_rr_dominated:
  assumes "length reset_point = 4" and "x0 \<le> \<bar>x\<bar>" "x1 \<le> \<bar>x\<bar>" "x2 \<le> \<bar>x\<bar>" "x3 \<le> \<bar>x\<bar>"
  shows "agc_quad_rr [x0, x1, x2, x3] reset_point phase x = ([\<bar>x\<bar>, \<bar>x\<bar>, \<bar>x\<bar>, \<bar>x\<bar>], \<bar>x\<bar>)"
proof -
  from length_4_cases [OF assms(1)] obtain r0 r1 r2 r3 where rp: "reset_point = [r0, r1, r2, r3]"
    by blast
  show ?thesis unfolding rp quad_rr_explicit using assms(2-)
    by (simp add: slot_dominated split del: if_split)
qed

section \<open>The envelope follower over a run of samples\<close>













section \<open>More fields the processing stages keep\<close>

lemma ducker_frame2:
  "RR_signal (ducker s m fa am) = RR_signal s \<and> RR_reset_point (ducker s m fa am) = RR_reset_point s \<and>
   partner (ducker s m fa am) = partner s \<and> input (ducker s m fa am) = input s \<and>
   hpstages (ducker s m fa am) = hpstages s \<and> buffer (ducker s m fa am) = buffer s \<and>
   limit (ducker s m fa am) = limit s \<and> nr_gain (ducker s m fa am) = nr_gain s \<and>
   ds_gain (ducker s m fa am) = ds_gain s \<and>
   ducker_attack (ducker s m fa am) = ducker_attack s \<and>
   ducker_release (ducker s m fa am) = ducker_release s"
  by (simp add: ducker_def Let_def)

lemma meters_frame2:
  "RR_signal (meters s fa) = RR_signal s \<and> RR_reset_point (meters s fa) = RR_reset_point s \<and>
   partner (meters s fa) = partner s \<and> input (meters s fa) = input s \<and>
   hpstages (meters s fa) = hpstages s \<and> buffer (meters s fa) = buffer s \<and>
   limit (meters s fa) = limit s \<and> nr_gain (meters s fa) = nr_gain s \<and>
   ds_gain (meters s fa) = ds_gain s \<and>
   ducker_attack (meters s fa) = ducker_attack s \<and>
   ducker_release (meters s fa) = ducker_release s"
  by (simp add: meters_def)

lemma stage2_body_frame2:
  "stage2_body p ps s m = Some s' \<Longrightarrow>
   RR_signal s' = fst (agc_quad_rr (RR_signal s) (RR_reset_point s) (stage2_phase s)
                        (sidechain_input p ps s)) \<and>
   RR_reset_point s' = RR_reset_point s \<and> partner s' = partner s \<and> input s' = input s \<and>
   hpstages s' = hpstages s \<and> buffer s' = buffer s \<and>
   limit s' = limit s \<and> nr_gain s' = nr_gain s \<and> ds_gain s' = ds_gain s \<and>
   ducker_attack s' = ducker_attack s \<and> ducker_release s' = ducker_release s"
  by (auto simp: stage2_body_def Let_def ducker_frame2 meters_frame2 split: prod.splits if_splits)

lemma stage1_body_frame2:
  "stage1_body hs s x = Some s' \<Longrightarrow>
   RR_signal s' = RR_signal s \<and> RR_reset_point s' = RR_reset_point s \<and>
   partner s' = partner s \<and> limit s' = limit s \<and> nr_gain s' = nr_gain s \<and>
   ds_gain s' = ds_gain s \<and> ducker_attack s' = ducker_attack s \<and>
   ducker_release s' = ducker_release s \<and> ds_state s' = ds_state s"
  by (auto simp: stage1_body_def Let_def split: option.splits prod.splits if_splits)

lemma stage1_transparent:
  "hpstages hs \<le> 0 \<Longrightarrow> hf_detail hs = 0 \<Longrightarrow> lf_detail hs = 0 \<Longrightarrow> use_phaserotator hs = 0 \<Longrightarrow>
   stage1_body hs s x = Some s' \<Longrightarrow> input s' = x"
  by (auto simp: stage1_body_def agc_6db_hpfilter_def agc_6db_lpfilter_def Let_def
      split: option.splits prod.splits if_splits)

lemma init_fields2:
  "agc_init sa ba sr la = Some (p, s) \<Longrightarrow>
   RR_signal s = [0, 0, 0, 0] \<and>
   RR_reset_point s = [0, buffer_len s * 2 * 1 sdiv 4, buffer_len s * 2 * 2 sdiv 4,
                       buffer_len s * 2 * 3 sdiv 4] \<and>
   input s = 0 \<and> limit s = 0.707 \<and> nr_gain s = 0.5 \<and> ds_gain s = 0.5 \<and> ds_state s = 0 \<and>
   gain s = 0 \<and> ducker_attack s = 1 / real_of_int (buffer_len s) \<and>
   ducker_release s = 1 / (0.250 * real_of_int sr) \<and> ducker_hold_timer s = 0"
  by (auto simp: agc_init_def Let_def setup_ratio_def setup_subsonic_def setup_hfdetail_def
      setup_lfdetail_def calloc_agc_def split: option.splits if_splits)

section \<open>The follower inside the per-sample cycle\<close>






section \<open>The noise gate\<close>

lemma valueparse_body_states:
  "nr_state (valueparse_body strtof atoi s key val) = nr_state s \<and>
   df (valueparse_body strtof atoi s key val) = df s \<and>
   use_ducker (valueparse_body strtof atoi s key val) =
     (if key = ''duckenable'' then starts_with_1 val else use_ducker s)"
  by (simp add: valueparse_body_def setup_ratio_def setup_subsonic_def setup_hfdetail_def
      setup_lfdetail_def Let_def)

lemma noise_gate_quiet:
  "nr_onthres s < amp \<Longrightarrow> amp < nr_offthres s \<Longrightarrow> noise_gate s amp = nr_state s"
  by (simp add: noise_gate_def)

lemma step_quiet:
  assumes "step strtof atoi h op = Some h'" and "quiet_update h p op" and "h p = Some s"
  shows "\<exists>s'. h' p = Some s' \<and> nr_state s' = nr_state s"
proof (cases "\<exists>m. op = Stage2 p m \<and> host s = p")
  case True
  then obtain m where op: "op = Stage2 p m" and hs: "host s = p" by blast
  from assms(1,3) op hs obtain ps s' where ps: "h (partner s) = Some ps"
    and b: "stage2_body p ps s m = Some s'" and h': "h' = h(p \<mapsto> s')"
    by (auto simp: agc_process_stage2_def split: option.splits)
  from assms(2,3) op hs ps have "nr_onthres s < stage2_level p ps s" "stage2_level p ps s < nr_offthres s"
    by (simp_all add: quiet_update_def)
  with stage2_body_states [OF b] h' show ?thesis by (simp add: noise_gate_quiet)
next
  case False
  show ?thesis
  proof (cases op)
    case (Stage1 p1 x)
    with assms show ?thesis
      using stage1_body_frame
      by (auto simp: agc_process_stage1_def split: option.splits if_splits)
  next
    case (Stage2 p1 m)
    with assms False show ?thesis
      by (auto simp: agc_process_stage2_def split: option.splits if_splits)
  next
    case (Stage3 p1)
    with assms show ?thesis by auto
  next
    case (Valueparse p1 key val)
    with assms show ?thesis
      by (auto simp: agc_valueparse_def valueparse_body_states)
  next
    case (ResetStats p1)
    with assms show ?thesis by (auto simp: agc_reset_stats_def)
  next
    case (SetAsPartners p1 p2)
    with assms show ?thesis
      by (auto simp: agc_set_as_partners_def Let_def split: option.splits if_splits)
  next
    case (SetPartneredMode p1 m)
    with assms show ?thesis
      by (auto simp: agc_set_partnered_mode_def split: option.splits if_splits)
  qed
qed

lemma gate_quiet_trace:
  "gate_quiet strtof atoi h p ops \<Longrightarrow> h p = Some s \<Longrightarrow>
   set (gate_trace strtof atoi h p ops) \<subseteq> {nr_state s}"
proof (induction ops arbitrary: h s)
  case Nil
  show ?case by simp
next
  case (Cons op ops)
  show ?case
  proof (cases "step strtof atoi h op")
    case None
    then show ?thesis by simp
  next
    case (Some h1)
    from Cons.prems(1) Some have q: "quiet_update h p op" "gate_quiet strtof atoi h1 p ops"
      by simp_all
    from step_quiet [OF Some q(1) Cons.prems(2)] obtain s1 where
      s1: "h1 p = Some s1" "nr_state s1 = nr_state s" by blast
    from Cons.IH [OF q(2) s1(1)] s1 Some show ?thesis by simp
  qed
qed

lemma changes_constant: "set zs \<subseteq> {x} \<Longrightarrow> changes (x # zs) = 0"
  by (induction zs) auto

lemma noise_gate_transitions:
  "nr_onthres s < nr_offthres s \<Longrightarrow>
   ((nr_state s \<noteq> 1 \<and> noise_gate s amp = 1) = (nr_state s \<noteq> 1 \<and> amp < nr_onthres s)) \<and>
   ((nr_state s = 1 \<and> noise_gate s amp \<noteq> 1) = (nr_state s = 1 \<and> amp > nr_offthres s))"
  by (auto simp: noise_gate_def)

text \<open>
  Claim C5. For a channel that \<^verbatim>\<open>agc_init\<close> returned, after any sequence of operations: a
  control update closes an open gate exactly when the level is below the onset threshold
  and opens a closed gate exactly when the level is above the offset threshold; and over
  every sequence of operations whose control updates see a level strictly between the two
  thresholds, the state of the gate changes at most once (it does not change at all).
\<close>

theorem noise_gate_hysteresis:
  assumes "agc_init sa ba sr la = Some (p, s0)"
    and "run strtof atoi (h(p \<mapsto> s0)) ops0 = Some h1"
    and "h1 p = Some s1"
  shows "(host s1 = p \<and> h1 (partner s1) = Some ps \<and> agc_process_stage2 h1 p m = Some h2 \<and>
          h2 p = Some s2 \<longrightarrow>
            ((nr_state s1 \<noteq> 1 \<and> nr_state s2 = 1) =
               (nr_state s1 \<noteq> 1 \<and> stage2_level p ps s1 < nr_onthres s1)) \<and>
            ((nr_state s1 = 1 \<and> nr_state s2 \<noteq> 1) =
               (nr_state s1 = 1 \<and> stage2_level p ps s1 > nr_offthres s1))) \<and>
         (gate_quiet strtof atoi h1 p ops \<longrightarrow>
            changes (nr_state s1 # gate_trace strtof atoi h1 p ops) \<le> 1 \<and>
            set (gate_trace strtof atoi h1 p ops) \<subseteq> {nr_state s1})"
proof -
  from run_chan [OF assms(2), of p s0] assms(3)
  have "(chan_step strtof atoi)\<^sup>*\<^sup>* s0 s1" by auto
  with chan_steps_invs [of strtof atoi s0 s1] init_invs [OF assms(1)]
  have inv: "nr_onthres s1 < nr_offthres s1" by (simp add: gate_inv_def)
  have A: "((nr_state s1 \<noteq> 1 \<and> nr_state s2 = 1) =
               (nr_state s1 \<noteq> 1 \<and> stage2_level p ps s1 < nr_onthres s1)) \<and>
            ((nr_state s1 = 1 \<and> nr_state s2 \<noteq> 1) =
               (nr_state s1 = 1 \<and> stage2_level p ps s1 > nr_offthres s1))"
    if "host s1 = p" "h1 (partner s1) = Some ps" "agc_process_stage2 h1 p m = Some h2"
      "h2 p = Some s2"
  proof -
    from that assms(3) have "stage2_body p ps s1 m = Some s2"
      by (auto simp: agc_process_stage2_def split: option.splits)
    from stage2_body_states [OF this] noise_gate_transitions [OF inv, of "stage2_level p ps s1"]
    show ?thesis by simp
  qed
  have B: "changes (nr_state s1 # gate_trace strtof atoi h1 p ops) \<le> 1 \<and>
      set (gate_trace strtof atoi h1 p ops) \<subseteq> {nr_state s1}"
    if "gate_quiet strtof atoi h1 p ops"
    using gate_quiet_trace [OF that assms(3)] changes_constant by simp
  from A B show ?thesis by blast
qed

section \<open>The ducking factor\<close>





section \<open>Concrete runs\<close>

lemma make_transparent_fields:
  "hpstages (make_transparent atoi s) = 0 \<and> hf_detail (make_transparent atoi s) = 0 \<and>
   lf_detail (make_transparent atoi s) = 0 \<and> use_phaserotator (make_transparent atoi s) = 0 \<and>
   host (make_transparent atoi s) = host s \<and> partner (make_transparent atoi s) = partner s \<and>
   buffer (make_transparent atoi s) = buffer s \<and> buffer_len (make_transparent atoi s) = buffer_len s \<and>
   in_pos (make_transparent atoi s) = in_pos s \<and> out_pos (make_transparent atoi s) = out_pos s \<and>
   RR_signal (make_transparent atoi s) = RR_signal s \<and>
   RR_reset_point (make_transparent atoi s) = RR_reset_point s \<and>
   limit (make_transparent atoi s) = limit s \<and> ratio (make_transparent atoi s) = ratio s \<and>
   nr_gain (make_transparent atoi s) = nr_gain s \<and> ds_gain (make_transparent atoi s) = ds_gain s \<and>
   df (make_transparent atoi s) = df s \<and> use_ducker (make_transparent atoi s) = use_ducker s \<and>
   ducker_attack (make_transparent atoi s) = ducker_attack s \<and>
   ducker_release (make_transparent atoi s) = ducker_release s \<and>
   nr_onthres (make_transparent atoi s) = nr_onthres s \<and>
   nr_offthres (make_transparent atoi s) = nr_offthres s \<and>
   nr_state (make_transparent atoi s) = nr_state s \<and> sRate (make_transparent atoi s) = sRate s"
  by (simp add: make_transparent_def valueparse_body_def setup_hfdetail_def setup_lfdetail_def
      Let_def starts_with_1_def c_trunc_def strtof_01_def)

lemma run_Valueparse:
  "h p = Some s \<Longrightarrow>
   run strtof atoi h (Valueparse p key val # ops) =
     run strtof atoi (h(p \<mapsto> valueparse_body strtof atoi s key val)) ops"
  by (simp add: agc_valueparse_def)

lemma run_transparent:
  "h p = Some s \<Longrightarrow>
   run strtof_01 atoi h (transparent_ops p @ ops) =
     run strtof_01 atoi (h(p \<mapsto> make_transparent atoi s)) ops"
  by (simp add: transparent_ops_def make_transparent_def run_Valueparse del: run.simps)

lemma run_Stage1:
  "agc_process_stage1 h p x = Some h1 \<Longrightarrow>
   run strtof atoi h (Stage1 p x # ops) = run strtof atoi h1 ops"
  by simp


subsection \<open>The ducking factor under a muted and an engaged update\<close>






subsection \<open>Stage 1 on a freshly constructed channel\<close>














subsection \<open>A level inside the hysteresis band\<close>

theorem noise_gate_hysteresis_witness:
  "\<exists>s0 h1 s1. agc_init (Some 0) True 48000 (1 / 100) = Some (0, s0) \<and>
     run strtof_01 (\<lambda>v. 0) [0 \<mapsto> s0] (transparent_ops 0 @ [Stage1 0 (2001 / 20000)]) = Some h1 \<and>
     h1 0 = Some s1 \<and>
     gate_quiet strtof_01 (\<lambda>v. 0) h1 0 [Stage2 0 0, Stage2 0 0] \<and>
     length (gate_trace strtof_01 (\<lambda>v. 0) h1 0 [Stage2 0 0, Stage2 0 0]) = 2 \<and>
     changes (nr_state s1 # gate_trace strtof_01 (\<lambda>v. 0) h1 0 [Stage2 0 0, Stage2 0 0]) \<le> 1"
proof -
  from init_48000_run obtain s0 where
    i: "agc_init (Some 0) True 48000 (1 / 100) = Some (0, s0)" and len: "buffer_len s0 = 480"
    by blast
  note fi = init_fields [OF i] init_fields2 [OF i]
  define s1 where "s1 = make_transparent (\<lambda>v. 0) s0"
  note t = make_transparent_fields [of "\<lambda>v. 0" s0, folded s1_def]
  have f1: "hpstages s1 = 0" "hf_detail s1 = 0" "lf_detail s1 = 0" "use_phaserotator s1 = 0"
    "host s1 = 0" "partner s1 = 0" "buffer_len s1 = 480" "int (length (buffer s1)) = 480"
    "in_pos s1 = 479" "out_pos s1 = 1" "RR_signal s1 = [0, 0, 0, 0]"
    "length (RR_reset_point s1) = 4" "nr_onthres s1 = 0.1" "nr_offthres s1 = 0.1001"
    using t fi len by simp_all
  have r1: "run strtof_01 (\<lambda>v. 0) (Map.empty(0 \<mapsto> s0)) (transparent_ops 0 @ [Stage1 0 (2001 / 20000)]) =
      run strtof_01 (\<lambda>v. 0) [0 \<mapsto> s1] [Stage1 0 (2001 / 20000)]"
    by (simp add: run_transparent s1_def del: run.simps)
  obtain s2 where s2: "stage1_body s1 s1 (2001 / 20000) = Some s2"
    using stage1_body_Some [of s1 s1 "2001 / 20000"] f1 by (auto simp: INT_MAX_def)
  note f2 = stage1_body_frame [OF s2] stage1_body_frame2 [OF s2]
  have in2: "input s2 = 2001 / 20000" using stage1_transparent [OF _ _ _ _ s2] f1 by simp
  have st1: "agc_process_stage1 [0 \<mapsto> s1] 0 (2001 / 20000) = Some [0 \<mapsto> s2]"
    using s2 f1 by (simp add: agc_process_stage1_def)
  have r: "run strtof_01 (\<lambda>v. 0) (Map.empty(0 \<mapsto> s0)) (transparent_ops 0 @ [Stage1 0 (2001 / 20000)]) =
      Some [0 \<mapsto> s2]"
    unfolding r1 by (simp add: run_Stage1 [OF st1] del: run.simps(2))
  have sc2: "sidechain_input 0 s2 s2 = 2001 / 20000"
    using in2 f2 f1 by (simp add: sidechain_input_def)
  have q2: "agc_quad_rr (RR_signal s2) (RR_reset_point s2) (stage2_phase s2) (sidechain_input 0 s2 s2) =
      ([2001 / 20000, 2001 / 20000, 2001 / 20000, 2001 / 20000], 2001 / 20000)"
    using quad_rr_dominated [of "RR_reset_point s2" 0 "2001 / 20000" 0 0 0 "stage2_phase s2"] f2 f1
    by (simp add: sc2)
  from agc_process_stage2_Some [of "[0 \<mapsto> s2]" 0 s2 s2 0] f2 f1
  obtain s3 where st2: "agc_process_stage2 [0 \<mapsto> s2] 0 0 = Some [0 \<mapsto> s3]"
    and s3: "stage2_body 0 s2 s2 0 = Some s3" by auto
  note f3 = stage2_body_frame [OF s3] stage2_body_frame2 [OF s3]
  have sc3: "sidechain_input 0 s3 s3 = 2001 / 20000"
    using in2 f3 f2 f1 by (simp add: sidechain_input_def)
  have q3: "agc_quad_rr (RR_signal s3) (RR_reset_point s3) (stage2_phase s3) (sidechain_input 0 s3 s3) =
      ([2001 / 20000, 2001 / 20000, 2001 / 20000, 2001 / 20000], 2001 / 20000)"
    using quad_rr_dominated [of "RR_reset_point s3" "2001 / 20000" "2001 / 20000" "2001 / 20000"
        "2001 / 20000" "2001 / 20000" "stage2_phase s3"] f3 f2 f1 q2
    by (simp add: sc3)
  from agc_process_stage2_Some [of "[0 \<mapsto> s3]" 0 s3 s3 0] f3 f2 f1
  obtain s4 where st3: "agc_process_stage2 [0 \<mapsto> s3] 0 0 = Some [0 \<mapsto> s4]" by auto
  have lv2: "stage2_level 0 s2 s2 = 2001 / 20000" by (simp add: stage2_level_def q2)
  have lv3: "stage2_level 0 s3 s3 = 2001 / 20000" by (simp add: stage2_level_def q3)
  have quiet: "gate_quiet strtof_01 (\<lambda>v. 0) [0 \<mapsto> s2] 0 [Stage2 0 0, Stage2 0 0]"
    using f3 f2 f1 by (simp add: quiet_update_def st2 st3 lv2 lv3)
  have tr: "length (gate_trace strtof_01 (\<lambda>v. 0) [0 \<mapsto> s2] 0 [Stage2 0 0, Stage2 0 0]) = 2"
    by (simp add: st2 st3)
  from noise_gate_hysteresis [OF i r, of s2 s2 0 "[0 \<mapsto> s3]" s3
      "[Stage2 0 0, Stage2 0 0]"] quiet
  have "changes (nr_state s2 # gate_trace strtof_01 (\<lambda>v. 0) [0 \<mapsto> s2] 0 [Stage2 0 0, Stage2 0 0]) \<le> 1"
    by simp
  with i r quiet tr show ?thesis
    by (intro exI [of _ s0] exI [of _ "[0 \<mapsto> s2]"] exI [of _ s2]) simp
qed

end
